theory Spec2Isabelle
  imports Main
begin

section \<open>Zotero library synchronisation (libraries.ts)\<close>

text \<open>
  The embedding follows \<^verbatim>\<open>libraries.ts\<close>: \<^verbatim>\<open>librarySyncActions\<close> (the planner),
  \<^verbatim>\<open>librarySync\<close> and \<^verbatim>\<open>syncObjects\<close> (the merge), \<^verbatim>\<open>hasLibrarySyncActions\<close> and
  \<^verbatim>\<open>libraryList\<close>. Calls of \<^verbatim>\<open>zoteroTrace\<close> and \<^verbatim>\<open>traceAction\<close> only write a log and
  are left out. An awaited call that rejects, or a read that throws, is the value
  \<open>Inl e\<close>; JavaScript numbers are \<open>int\<close> (version numbers; \<open>NaN\<close> does not occur).
\<close>

subsection \<open>JavaScript values and truthiness\<close>

datatype error = RemoteQueryFailed | LocalReadFailed

datatype JsValue =
    JsUndefined
  | JsNull
  | JsBool bool
  | JsNumber int
  | JsString string
  | JsObject

fun truthy :: "JsValue \<Rightarrow> bool" where
  "truthy JsUndefined = False"
| "truthy JsNull = False"
| "truthy (JsBool b) = b"
| "truthy (JsNumber n) = (n \<noteq> 0)"
| "truthy (JsString s) = (s \<noteq> [])"
| "truthy JsObject = True"

text \<open>\<^verbatim>\<open>a || b\<close> where \<^verbatim>\<open>a\<close> is a number or \<^verbatim>\<open>undefined\<close>: \<^verbatim>\<open>undefined\<close> and \<^verbatim>\<open>0\<close> are falsy.\<close>

definition orNumber :: "int option \<Rightarrow> int \<Rightarrow> int" where
  "orNumber a b = (case a of None \<Rightarrow> b | Some n \<Rightarrow> if n = 0 then b else n)"

text \<open>\<^verbatim>\<open>a || b\<close> where both are an object or \<^verbatim>\<open>undefined\<close>/\<^verbatim>\<open>null\<close>: an object is truthy.\<close>

definition orObject :: "'a option \<Rightarrow> 'a option \<Rightarrow> 'a option" where
  "orObject a b = (case a of Some x \<Rightarrow> Some x | None \<Rightarrow> b)"

subsection \<open>Data model\<close>

text \<open>
  \<^verbatim>\<open>Group\<close>, \<^verbatim>\<open>User\<close>, \<^verbatim>\<open>Library\<close>, \<^verbatim>\<open>Collection\<close> and \<^verbatim>\<open>Item\<close> are declared in
  \<^verbatim>\<open>api.ts\<close>; the fields below are the ones \<^verbatim>\<open>libraries.ts\<close> reads (\<^verbatim>\<open>group.id\<close>,
  \<^verbatim>\<open>user.userID\<close>, \<^verbatim>\<open>library.type\<close>, \<^verbatim>\<open>library.id\<close>, \<^verbatim>\<open>library.group\<close>, \<^verbatim>\<open>obj.key\<close>,
  \<^verbatim>\<open>collection.name\<close>, \<^verbatim>\<open>item.data\<close>), the group's remaining metadata standing as its
  name. Field names shared by several interfaces carry a prefix here:
  \<open>lib_\<close> for \<^verbatim>\<open>Library\<close>, \<open>v_\<close> for \<^verbatim>\<open>LibraryVersions\<close>, \<open>sa_\<close> for
  \<^verbatim>\<open>LibrarySyncActions\<close>, \<open>resp_\<close> for a versioned response, \<open>del_\<close> for the payload of
  the deletion feed, \<open>lo_\<close> for what \<^verbatim>\<open>libraryRead\<close> returns, \<open>api_\<close> for the methods of
  \<^verbatim>\<open>ZoteroApi\<close>.
\<close>

record Group =
  group_id :: int
  group_name :: string

record User =
  userID :: int

datatype LibraryType = UserLibrary | GroupLibrary

record Library =
  lib_type :: LibraryType
  lib_id :: int
  lib_group :: "Group option"

text \<open>\<^verbatim>\<open>T extends { key: string }\<close> is any extension of the record \<open>Keyed\<close>.\<close>

record Keyed =
  key :: string

record Collection = Keyed +
  name :: string

text \<open>
  \<^verbatim>\<open>item.data\<close> is an object with string keys; it is given as the list of its own
  properties, and \<^verbatim>\<open>item.data["deleted"]\<close> is \<^verbatim>\<open>undefined\<close> when there is none.
\<close>

record Item = Keyed +
  data :: "(string \<times> JsValue) list"

definition getProp :: "(string \<times> JsValue) list \<Rightarrow> string \<Rightarrow> JsValue" where
  "getProp obj k = (case map_of obj k of None \<Rightarrow> JsUndefined | Some v \<Rightarrow> v)"

text \<open>\<^verbatim>\<open>SyncActions<T>\<close> of \<^verbatim>\<open>sync.ts\<close>: the two arrays \<^verbatim>\<open>libraries.ts\<close> fills and reads.\<close>

record 't SyncActions =
  deleted :: "string list"
  updated :: "'t list"

record LibraryVersions =
  v_collections :: int
  v_items :: int
  v_deleted :: int

record LibraryData =
  group :: "Group option"
  versions :: LibraryVersions
  collections :: "Collection list"
  items :: "Item list"

record LibrarySyncActions =
  sa_group :: "Group option"
  sa_versions :: LibraryVersions
  sa_collections :: "Collection SyncActions"
  sa_items :: "Item SyncActions"

subsection \<open>The collaborators: remote API and local storage\<close>

text \<open>
  A response of the remote is \<^verbatim>\<open>null\<close> (\<open>None\<close>) or an object with \<^verbatim>\<open>version\<close> and
  \<^verbatim>\<open>data\<close>; the version may be missing. The \<^verbatim>\<open>data\<close> of a change feed maps keys to
  versions: it is given as the list of its properties in enumeration order, which is
  what \<^verbatim>\<open>Object.keys\<close> returns the keys of.
\<close>

record DeletedData =
  del_collections :: "string list"
  del_items :: "string list"

record 'd VersionedResponse =
  resp_version :: "int option"
  resp_data :: 'd

definition objectKeys :: "(string \<times> 'v) list \<Rightarrow> string list" where
  "objectKeys obj = map fst obj"

record ZoteroApi =
  api_deleted :: "Library \<Rightarrow> int \<Rightarrow> error + DeletedData VersionedResponse option"
  api_collectionVersions ::
    "Library \<Rightarrow> int \<Rightarrow> error + (string \<times> int) list VersionedResponse option"
  api_collections :: "Library \<Rightarrow> string list \<Rightarrow> error + Collection list"
  api_itemVersions ::
    "Library \<Rightarrow> int \<Rightarrow> error + (string \<times> int) list VersionedResponse option"
  api_items :: "Library \<Rightarrow> string list \<Rightarrow> error + Item list"

text \<open>
  The functions imported from \<^verbatim>\<open>storage.ts\<close> are parameters of the model.
  \<^verbatim>\<open>libraryRead\<close> yields the two sequences \<^verbatim>\<open>librarySync\<close> takes from it.
\<close>

record LocalObjects =
  lo_collections :: "Collection list"
  lo_items :: "Item list"

record Storage =
  libraryReadVersions :: "User \<Rightarrow> Library \<Rightarrow> error + LibraryVersions"
  userWebLibrariesDir :: "User \<Rightarrow> string"
  libraryRead :: "string \<Rightarrow> Library \<Rightarrow> error + LocalObjects"

subsection \<open>\<^verbatim>\<open>libraryList\<close>\<close>

definition libraryList :: "User \<Rightarrow> Group list \<Rightarrow> Library list" where
  "libraryList user groups =
     [\<lparr>lib_type = UserLibrary, lib_id = userID user, lib_group = None\<rparr>]
       @ map (\<lambda>g. \<lparr>lib_type = GroupLibrary, lib_id = group_id g,
                         lib_group = Some g\<rparr>) groups"

subsection \<open>\<^verbatim>\<open>librarySyncActions\<close>: the planner\<close>

text \<open>The loops \<^verbatim>\<open>for (const k of ks) actions.deleted.push(k)\<close> (lines 84-93).\<close>

fun pushDeleted :: "'t SyncActions \<Rightarrow> string list \<Rightarrow> 't SyncActions" where
  "pushDeleted actions [] = actions"
| "pushDeleted actions (k # ks) =
     pushDeleted (actions\<lparr>deleted := deleted actions @ [k]\<rparr>) ks"

text \<open>The loop over the fetched collections (lines 101-104).\<close>

fun pushUpdated :: "'t SyncActions \<Rightarrow> 't list \<Rightarrow> 't SyncActions" where
  "pushUpdated actions [] = actions"
| "pushUpdated actions (obj # objs) =
     pushUpdated (actions\<lparr>updated := updated actions @ [obj]\<rparr>) objs"

text \<open>The test \<^verbatim>\<open>item.data["deleted"]\<close> of line 115.\<close>

abbreviation selfDeleted :: "Item \<Rightarrow> bool" where
  "selfDeleted item \<equiv> truthy (getProp (data item) ''deleted'')"

text \<open>The loop over the fetched items (lines 114-123).\<close>

fun classifyItems :: "Item SyncActions \<Rightarrow> Item list \<Rightarrow> Item SyncActions" where
  "classifyItems actions [] = actions"
| "classifyItems actions (item # rest) =
     classifyItems
       (if selfDeleted item
        then actions\<lparr>deleted := deleted actions @ [key item]\<rparr>
        else actions\<lparr>updated := updated actions @ [item]\<rparr>)
       rest"

text \<open>Lines 76-94: the deletion feed, queried from the stored cursor.\<close>

definition checkForDeletes ::
  "ZoteroApi \<Rightarrow> Library \<Rightarrow> LibraryVersions \<Rightarrow> LibrarySyncActions
     \<Rightarrow> error + LibrarySyncActions" where
  "checkForDeletes zotero library cursors syncActions =
     (case api_deleted zotero library (v_deleted cursors) of
        Inl e \<Rightarrow> Inl e
      | Inr None \<Rightarrow> Inr syncActions
      | Inr (Some deletedR) \<Rightarrow>
          Inr (syncActions
            \<lparr>sa_versions := (sa_versions syncActions)
               \<lparr>v_deleted := orNumber (resp_version deletedR)
                               (v_deleted (sa_versions syncActions))\<rparr>,
             sa_collections := pushDeleted (sa_collections syncActions)
                                 (del_collections (resp_data deletedR)),
             sa_items := pushDeleted (sa_items syncActions)
                           (del_items (resp_data deletedR))\<rparr>))"

text \<open>Lines 96-107: the collection feed and the fetch of the changed collections.\<close>

definition checkForCollections ::
  "ZoteroApi \<Rightarrow> Library \<Rightarrow> LibraryVersions \<Rightarrow> LibrarySyncActions
     \<Rightarrow> error + LibrarySyncActions" where
  "checkForCollections zotero library cursors syncActions =
     (case api_collectionVersions zotero library (v_collections cursors) of
        Inl e \<Rightarrow> Inl e
      | Inr None \<Rightarrow> Inr syncActions
      | Inr (Some collectionChanges) \<Rightarrow>
          (case api_collections zotero library (objectKeys (resp_data collectionChanges)) of
             Inl e \<Rightarrow> Inl e
           | Inr fetched \<Rightarrow>
               Inr (syncActions
                 \<lparr>sa_collections := pushUpdated (sa_collections syncActions) fetched,
                  sa_versions := (sa_versions syncActions)
                    \<lparr>v_collections := orNumber (resp_version collectionChanges)
                                        (v_collections (sa_versions syncActions))\<rparr>\<rparr>)))"

text \<open>Lines 109-126: the item feed, the fetch and the classification of the items.\<close>

definition checkForItems ::
  "ZoteroApi \<Rightarrow> Library \<Rightarrow> LibraryVersions \<Rightarrow> LibrarySyncActions
     \<Rightarrow> error + LibrarySyncActions" where
  "checkForItems zotero library cursors syncActions =
     (case api_itemVersions zotero library (v_items cursors) of
        Inl e \<Rightarrow> Inl e
      | Inr None \<Rightarrow> Inr syncActions
      | Inr (Some itemChanges) \<Rightarrow>
          (case api_items zotero library (objectKeys (resp_data itemChanges)) of
             Inl e \<Rightarrow> Inl e
           | Inr fetched \<Rightarrow>
               Inr (syncActions
                 \<lparr>sa_items := classifyItems (sa_items syncActions) fetched,
                  sa_versions := (sa_versions syncActions)
                    \<lparr>v_items := orNumber (resp_version itemChanges)
                                  (v_items (sa_versions syncActions))\<rparr>\<rparr>)))"

text \<open>
  The whole planner: the actions start with all three versions \<open>0\<close> and empty arrays
  (lines 56-71), the stored versions are read (line 74) and handed to the three queries.
  The local \<^verbatim>\<open>versions\<close> of the source is called \<open>cursors\<close>, \<open>versions\<close> being a field
  of \<^verbatim>\<open>LibraryData\<close>.
\<close>

definition initialSyncActions :: "Group option \<Rightarrow> LibrarySyncActions" where
  "initialSyncActions groupSync =
     \<lparr>sa_group = orObject groupSync None,
      sa_versions = \<lparr>v_collections = 0, v_items = 0, v_deleted = 0\<rparr>,
      sa_collections = \<lparr>deleted = [], updated = []\<rparr>,
      sa_items = \<lparr>deleted = [], updated = []\<rparr>\<rparr>"

definition librarySyncActions ::
  "Storage \<Rightarrow> User \<Rightarrow> Library \<Rightarrow> Group option \<Rightarrow> ZoteroApi
     \<Rightarrow> error + LibrarySyncActions" where
  "librarySyncActions storage user library groupSync zotero =
     (case libraryReadVersions storage user library of
        Inl e \<Rightarrow> Inl e
      | Inr cursors \<Rightarrow>
          (case checkForDeletes zotero library cursors (initialSyncActions groupSync) of
             Inl e \<Rightarrow> Inl e
           | Inr syncActions1 \<Rightarrow>
               (case checkForCollections zotero library cursors syncActions1 of
                  Inl e \<Rightarrow> Inl e
                | Inr syncActions2 \<Rightarrow>
                    checkForItems zotero library cursors syncActions2)))"

subsection \<open>\<^verbatim>\<open>syncObjects\<close>, \<^verbatim>\<open>librarySync\<close>, \<^verbatim>\<open>hasLibrarySyncActions\<close>\<close>

definition syncObjects ::
  "'a Keyed_scheme list \<Rightarrow> 'a Keyed_scheme SyncActions \<Rightarrow> 'a Keyed_scheme list" where
  "syncObjects objects syncActions =
     (let objects1 = filter (\<lambda>obj. key obj \<notin> set (deleted syncActions)) objects;
          updatedIds = map key (updated syncActions);
          objects2 = filter (\<lambda>obj. key obj \<notin> set updatedIds) objects1
      in objects2 @ updated syncActions)"

definition librarySync ::
  "Storage \<Rightarrow> User \<Rightarrow> Library \<Rightarrow> LibrarySyncActions \<Rightarrow> error + LibraryData" where
  "librarySync storage user library syncActions =
     (let dir = userWebLibrariesDir storage user in
      case libraryRead storage dir library of
        Inl e \<Rightarrow> Inl e
      | Inr localObjects \<Rightarrow>
          Inr \<lparr>group = orObject (sa_group syncActions) (lib_group library),
               versions = sa_versions syncActions,
               collections = syncObjects (lo_collections localObjects)
                               (sa_collections syncActions),
               items = syncObjects (lo_items localObjects) (sa_items syncActions)\<rparr>)"

text \<open>
  \<^verbatim>\<open>sync.group || ... > 0 || ...\<close> evaluates to the group object when there is one, and
  to the boolean of the comparisons otherwise.
\<close>

datatype GroupOrBoolean = GroupValue Group | BooleanValue bool

fun truthyResult :: "GroupOrBoolean \<Rightarrow> bool" where
  "truthyResult (GroupValue g) = True"
| "truthyResult (BooleanValue b) = b"

definition hasLibrarySyncActions :: "LibrarySyncActions \<Rightarrow> GroupOrBoolean" where
  "hasLibrarySyncActions sync =
     (case sa_group sync of
        Some g \<Rightarrow> GroupValue g
      | None \<Rightarrow>
          BooleanValue
            (length (deleted (sa_collections sync)) > 0 \<or>
             length (updated (sa_collections sync)) > 0 \<or>
             length (deleted (sa_items sync)) > 0 \<or>
             length (updated (sa_items sync)) > 0))"

subsection \<open>What the remote reported\<close>

text \<open>
  The values the planner binds to \<^verbatim>\<open>deleted.data\<close>, \<^verbatim>\<open>collections\<close> and \<^verbatim>\<open>items\<close>, as
  functions of the remote and of the stored cursors it is queried with; empty when the
  feed answers \<^verbatim>\<open>null\<close>.
\<close>

definition remoteDeleted :: "ZoteroApi \<Rightarrow> Library \<Rightarrow> LibraryVersions \<Rightarrow> DeletedData" where
  "remoteDeleted zotero library cursors =
     (case api_deleted zotero library (v_deleted cursors) of
        Inr (Some deletedR) \<Rightarrow> resp_data deletedR
      | _ \<Rightarrow> \<lparr>del_collections = [], del_items = []\<rparr>)"

definition remoteCollections ::
  "ZoteroApi \<Rightarrow> Library \<Rightarrow> LibraryVersions \<Rightarrow> Collection list" where
  "remoteCollections zotero library cursors =
     (case api_collectionVersions zotero library (v_collections cursors) of
        Inr (Some collectionChanges) \<Rightarrow>
          (case api_collections zotero library (objectKeys (resp_data collectionChanges)) of
             Inr fetched \<Rightarrow> fetched
           | Inl e \<Rightarrow> [])
      | _ \<Rightarrow> [])"

definition remoteItems :: "ZoteroApi \<Rightarrow> Library \<Rightarrow> LibraryVersions \<Rightarrow> Item list" where
  "remoteItems zotero library cursors =
     (case api_itemVersions zotero library (v_items cursors) of
        Inr (Some itemChanges) \<Rightarrow>
          (case api_items zotero library (objectKeys (resp_data itemChanges)) of
             Inr fetched \<Rightarrow> fetched
           | Inl e \<Rightarrow> [])
      | _ \<Rightarrow> [])"

subsection \<open>A storage that holds one snapshot\<close>

text \<open>
  Modelled from the spec: the persistence collaborator (\<^verbatim>\<open>storage.ts\<close>) is not part of
  the sources. Once the snapshot of an application has been written, \<^verbatim>\<open>readVersions\<close>
  returns its cursors and \<^verbatim>\<open>readSnapshot\<close> its two sequences, for the library it was
  written for.
\<close>

definition storageOf :: "LibraryData \<Rightarrow> Storage" where
  "storageOf stored =
     \<lparr>libraryReadVersions = (\<lambda>user library. Inr (versions stored)),
      userWebLibrariesDir = (\<lambda>user. ''libraries''),
      libraryRead = (\<lambda>dir library.
        Inr \<lparr>lo_collections = collections stored, lo_items = items stored\<rparr>)\<rparr>"

subsection \<open>Concrete users, remotes and snapshots\<close>

text \<open>A remote that answers each of the five calls with a fixed value.\<close>

definition fixedRemote ::
  "DeletedData VersionedResponse option
     \<Rightarrow> (string \<times> int) list VersionedResponse option \<Rightarrow> Collection list
     \<Rightarrow> (string \<times> int) list VersionedResponse option \<Rightarrow> Item list \<Rightarrow> ZoteroApi" where
  "fixedRemote deletedR collectionChanges fetchedCollections itemChanges fetchedItems =
     \<lparr>api_deleted = (\<lambda>library since. Inr deletedR),
      api_collectionVersions = (\<lambda>library since. Inr collectionChanges),
      api_collections = (\<lambda>library keys. Inr fetchedCollections),
      api_itemVersions = (\<lambda>library since. Inr itemChanges),
      api_items = (\<lambda>library keys. Inr fetchedItems)\<rparr>"

definition alice :: User where
  "alice = \<lparr>userID = 1\<rparr>"

definition aliceLibrary :: Library where
  "aliceLibrary = \<lparr>lib_type = UserLibrary, lib_id = 1, lib_group = None\<rparr>"

definition readers :: Group where
  "readers = \<lparr>group_id = 20, group_name = ''readers''\<rparr>"

definition readersLibrary :: Library where
  "readersLibrary = \<lparr>lib_type = GroupLibrary, lib_id = 20, lib_group = Some readers\<rparr>"

definition collectionC1 :: Collection where
  "collectionC1 = \<lparr>key = ''C1'', name = ''Logic''\<rparr>"

definition collectionC1' :: Collection where
  "collectionC1' = \<lparr>key = ''C1'', name = ''Logic, renamed''\<rparr>"

definition collectionC2 :: Collection where
  "collectionC2 = \<lparr>key = ''C2'', name = ''Algebra''\<rparr>"

definition itemI1 :: Item where
  "itemI1 = \<lparr>key = ''I1'', data = [(''title'', JsString ''Sets'')]\<rparr>"

definition itemI2 :: Item where
  "itemI2 = \<lparr>key = ''I2'', data = [(''title'', JsString ''Types'')]\<rparr>"

definition itemI3 :: Item where
  "itemI3 = \<lparr>key = ''I3'', data = [(''title'', JsString ''Gone''), (''deleted'', JsNumber 1)]\<rparr>"

text \<open>No feed has anything new: every query answers \<^verbatim>\<open>null\<close>.\<close>

definition quietRemote :: ZoteroApi where
  "quietRemote = fixedRemote None None [] None []"

text \<open>Every feed answers, with empty data and without a version.\<close>

definition versionlessRemote :: ZoteroApi where
  "versionlessRemote =
     fixedRemote (Some \<lparr>resp_version = None,
                         resp_data = \<lparr>del_collections = [], del_items = []\<rparr>\<rparr>)
       (Some \<lparr>resp_version = None, resp_data = []\<rparr>) []
       (Some \<lparr>resp_version = None, resp_data = []\<rparr>) []"

definition syncedTo465 :: LibraryData where
  "syncedTo465 =
     \<lparr>group = None, versions = \<lparr>v_collections = 4, v_items = 6, v_deleted = 5\<rparr>,
      collections = [collectionC1], items = [itemI1]\<rparr>"

definition zeroPlan :: LibrarySyncActions where
  "zeroPlan =
     \<lparr>sa_group = None,
      sa_versions = \<lparr>v_collections = 0, v_items = 0, v_deleted = 0\<rparr>,
      sa_collections = \<lparr>deleted = [], updated = []\<rparr>,
      sa_items = \<lparr>deleted = [], updated = []\<rparr>\<rparr>"

text \<open>
  Two cycles. In the first the library is at version 7 and all three feeds answer, the
  deletion feed with item \<open>I1\<close>; in the second only the item feed answers, at version 8
  with the new item \<open>I2\<close>, and the other two feeds answer \<^verbatim>\<open>null\<close>.
\<close>

definition firstRemote :: ZoteroApi where
  "firstRemote =
     fixedRemote (Some \<lparr>resp_version = Some 7,
                         resp_data = \<lparr>del_collections = [], del_items = [''I1'']\<rparr>\<rparr>)
       (Some \<lparr>resp_version = Some 7, resp_data = []\<rparr>) []
       (Some \<lparr>resp_version = Some 7, resp_data = []\<rparr>) []"

definition secondRemote :: ZoteroApi where
  "secondRemote =
     fixedRemote None None []
       (Some \<lparr>resp_version = Some 8, resp_data = [(''I2'', 8)]\<rparr>) [itemI2]"

definition snapshot0 :: LibraryData where
  "snapshot0 =
     \<lparr>group = None, versions = \<lparr>v_collections = 0, v_items = 0, v_deleted = 0\<rparr>,
      collections = [], items = [itemI1]\<rparr>"

definition snapshot1 :: LibraryData where
  "snapshot1 =
     \<lparr>group = None, versions = \<lparr>v_collections = 7, v_items = 7, v_deleted = 7\<rparr>,
      collections = [], items = []\<rparr>"

definition snapshot2 :: LibraryData where
  "snapshot2 =
     \<lparr>group = None, versions = \<lparr>v_collections = 0, v_items = 8, v_deleted = 0\<rparr>,
      collections = [], items = [itemI2]\<rparr>"

definition firstPlan :: LibrarySyncActions where
  "firstPlan =
     \<lparr>sa_group = None,
      sa_versions = \<lparr>v_collections = 7, v_items = 7, v_deleted = 7\<rparr>,
      sa_collections = \<lparr>deleted = [], updated = []\<rparr>,
      sa_items = \<lparr>deleted = [''I1''], updated = []\<rparr>\<rparr>"

definition secondPlan :: LibrarySyncActions where
  "secondPlan =
     \<lparr>sa_group = None,
      sa_versions = \<lparr>v_collections = 0, v_items = 8, v_deleted = 0\<rparr>,
      sa_collections = \<lparr>deleted = [], updated = []\<rparr>,
      sa_items = \<lparr>deleted = [], updated = [itemI2]\<rparr>\<rparr>"

text \<open>The deletion feed and the collection feed both report \<open>C1\<close>.\<close>

definition overlappingRemote :: ZoteroApi where
  "overlappingRemote =
     fixedRemote (Some \<lparr>resp_version = Some 9,
                         resp_data = \<lparr>del_collections = [''C1''], del_items = []\<rparr>\<rparr>)
       (Some \<lparr>resp_version = Some 9, resp_data = [(''C1'', 9)]\<rparr>) [collectionC1]
       None []"

definition overlappingPlan :: LibrarySyncActions where
  "overlappingPlan =
     \<lparr>sa_group = None,
      sa_versions = \<lparr>v_collections = 9, v_items = 0, v_deleted = 9\<rparr>,
      sa_collections = \<lparr>deleted = [''C1''], updated = [collectionC1]\<rparr>,
      sa_items = \<lparr>deleted = [], updated = []\<rparr>\<rparr>"

text \<open>A remote whose feeds are disjoint: \<open>C1\<close> and \<open>I1\<close> deleted, \<open>C2\<close>, \<open>I2\<close>, \<open>I3\<close> changed.\<close>

definition disjointRemote :: ZoteroApi where
  "disjointRemote =
     fixedRemote (Some \<lparr>resp_version = Some 9,
                         resp_data = \<lparr>del_collections = [''C1''], del_items = [''I1'']\<rparr>\<rparr>)
       (Some \<lparr>resp_version = Some 9, resp_data = [(''C2'', 9)]\<rparr>) [collectionC2]
       (Some \<lparr>resp_version = Some 9, resp_data = [(''I2'', 8), (''I3'', 9)]\<rparr>)
       [itemI2, itemI3]"

definition disjointPlan :: LibrarySyncActions where
  "disjointPlan =
     \<lparr>sa_group = None,
      sa_versions = \<lparr>v_collections = 9, v_items = 9, v_deleted = 9\<rparr>,
      sa_collections = \<lparr>deleted = [''C1''], updated = [collectionC2]\<rparr>,
      sa_items = \<lparr>deleted = [''I1'', ''I3''], updated = [itemI2]\<rparr>\<rparr>"

text \<open>A plan that only carries new group metadata.\<close>

definition groupOnlyPlan :: LibrarySyncActions where
  "groupOnlyPlan = zeroPlan\<lparr>sa_group := Some readers\<rparr>"

text \<open>The snapshot \<open>syncedTo465\<close> after the plan \<open>disjointPlan\<close> has been applied to it.\<close>

definition mergedSnapshot :: LibraryData where
  "mergedSnapshot =
     \<lparr>group = None, versions = \<lparr>v_collections = 9, v_items = 9, v_deleted = 9\<rparr>,
      collections = [collectionC2], items = [itemI2]\<rparr>"

text \<open>The fetch returned two collections with the key \<open>C1\<close>.\<close>

definition duplicatePlan :: LibrarySyncActions where
  "duplicatePlan =
     zeroPlan\<lparr>sa_collections := \<lparr>deleted = [], updated = [collectionC1, collectionC1']\<rparr>\<rparr>"

text \<open>A stored snapshot that holds the key \<open>C1\<close> twice.\<close>

definition duplicatedSnapshot :: LibraryData where
  "duplicatedSnapshot =
     \<lparr>group = None, versions = \<lparr>v_collections = 0, v_items = 0, v_deleted = 0\<rparr>,
      collections = [collectionC1, collectionC1'], items = []\<rparr>"

text \<open>
  A snapshot with two collections and two items, and a plan that replaces the stored
  \<open>C1\<close> and \<open>I2\<close> and adds \<open>C3\<close> and \<open>I4\<close>; \<open>replacedSnapshot\<close> is the result.
\<close>

definition collectionC3 :: Collection where
  "collectionC3 = \<lparr>key = ''C3'', name = ''Topology''\<rparr>"

definition itemI2' :: Item where
  "itemI2' = \<lparr>key = ''I2'', data = [(''title'', JsString ''Types, second edition'')]\<rparr>"

definition itemI4 :: Item where
  "itemI4 = \<lparr>key = ''I4'', data = [(''title'', JsString ''Orders'')]\<rparr>"

definition shelfSnapshot :: LibraryData where
  "shelfSnapshot =
     \<lparr>group = None, versions = \<lparr>v_collections = 4, v_items = 6, v_deleted = 5\<rparr>,
      collections = [collectionC1, collectionC2], items = [itemI1, itemI2]\<rparr>"

definition replacePlan :: LibrarySyncActions where
  "replacePlan =
     \<lparr>sa_group = None,
      sa_versions = \<lparr>v_collections = 9, v_items = 9, v_deleted = 9\<rparr>,
      sa_collections = \<lparr>deleted = [], updated = [collectionC1', collectionC3]\<rparr>,
      sa_items = \<lparr>deleted = [], updated = [itemI2', itemI4]\<rparr>\<rparr>"

definition replacedSnapshot :: LibraryData where
  "replacedSnapshot =
     \<lparr>group = None, versions = \<lparr>v_collections = 9, v_items = 9, v_deleted = 9\<rparr>,
      collections = [collectionC2, collectionC1', collectionC3],
      items = [itemI1, itemI2', itemI4]\<rparr>"

text \<open>A stored snapshot that carries the metadata of the group \<open>readers\<close>.\<close>

definition readersSnapshot :: LibraryData where
  "readersSnapshot =
     \<lparr>group = Some readers, versions = \<lparr>v_collections = 4, v_items = 6, v_deleted = 5\<rparr>,
      collections = [collectionC1], items = [itemI1]\<rparr>"

section \<open>Properties\<close>

subsection \<open>The loops and the planner in closed form\<close>

lemma pushDeleted_eq: "pushDeleted actions ks = actions\<lparr>deleted := deleted actions @ ks\<rparr>"
  by (induction ks arbitrary: actions) simp_all

lemma pushUpdated_eq: "pushUpdated actions objs = actions\<lparr>updated := updated actions @ objs\<rparr>"
  by (induction objs arbitrary: actions) simp_all

lemma classifyItems_eq:
  "classifyItems actions fetched =
     actions\<lparr>deleted := deleted actions @ map key (filter selfDeleted fetched),
              updated := updated actions @ filter (\<lambda>item. \<not> selfDeleted item) fetched\<rparr>"
  by (induction fetched arbitrary: actions) simp_all

text \<open>
  A successful plan lists exactly what the remote reported: the deletion feed's keys,
  then the keys of the fetched items that mark themselves deleted, and the fetched
  entities in the order of the fetch.
\<close>

lemma plan_actions:
  assumes "librarySyncActions storage user library groupSync zotero = Inr plan"
    and "libraryReadVersions storage user library = Inr cursors"
  shows "deleted (sa_collections plan) = del_collections (remoteDeleted zotero library cursors)"
    and "updated (sa_collections plan) = remoteCollections zotero library cursors"
    and "deleted (sa_items plan) =
           del_items (remoteDeleted zotero library cursors)
             @ map key (filter selfDeleted (remoteItems zotero library cursors))"
    and "updated (sa_items plan) =
           filter (\<lambda>item. \<not> selfDeleted item) (remoteItems zotero library cursors)"
  using assms
  by (auto simp: librarySyncActions_def checkForDeletes_def checkForCollections_def
        checkForItems_def initialSyncActions_def remoteDeleted_def remoteCollections_def
        remoteItems_def pushDeleted_eq pushUpdated_eq classifyItems_eq
      split: sum.splits option.splits)

text \<open>
  Its versions depend on the answers of the three feeds alone: a feed that answers
  \<^verbatim>\<open>null\<close>, or without a version, or with the version \<open>0\<close>, leaves the \<open>0\<close> the plan
  started with.
\<close>

lemma plan_versions:
  assumes "librarySyncActions storage user library groupSync zotero = Inr plan"
    and "libraryReadVersions storage user library = Inr cursors"
  shows "v_deleted (sa_versions plan) =
           (case api_deleted zotero library (v_deleted cursors) of
              Inr (Some deletedR) \<Rightarrow> orNumber (resp_version deletedR) 0
            | _ \<Rightarrow> 0)"
    and "v_collections (sa_versions plan) =
           (case api_collectionVersions zotero library (v_collections cursors) of
              Inr (Some collectionChanges) \<Rightarrow> orNumber (resp_version collectionChanges) 0
            | _ \<Rightarrow> 0)"
    and "v_items (sa_versions plan) =
           (case api_itemVersions zotero library (v_items cursors) of
              Inr (Some itemChanges) \<Rightarrow> orNumber (resp_version itemChanges) 0
            | _ \<Rightarrow> 0)"
  using assms
  by (auto simp: librarySyncActions_def checkForDeletes_def checkForCollections_def
        checkForItems_def initialSyncActions_def
      split: sum.splits option.splits)

lemma syncObjects_append:
  "syncObjects objects syncActions =
     filter (\<lambda>obj. key obj \<notin> set (deleted syncActions)
                  \<and> key obj \<notin> set (map key (updated syncActions))) objects
       @ updated syncActions"
  by (simp add: syncObjects_def Let_def)

lemma syncObjects_idem:
  "syncObjects (syncObjects objects syncActions) syncActions = syncObjects objects syncActions"
  by (simp add: syncObjects_append filter_empty_conv)

lemma syncObjects_distinct:
  assumes "distinct (map key objects)" and "distinct (map key (updated syncActions))"
  shows "distinct (map key (syncObjects objects syncActions))"
  using assms by (auto simp: syncObjects_append distinct_map_filter)

text \<open>Unfolding the planner and the concrete values, for the evaluations below.\<close>

lemmas planner_simps =
  librarySyncActions_def checkForDeletes_def checkForCollections_def checkForItems_def
  initialSyncActions_def fixedRemote_def storageOf_def orNumber_def orObject_def
  objectKeys_def getProp_def

lemmas merge_simps =
  librarySync_def syncObjects_def

lemmas example_simps =
  alice_def aliceLibrary_def readers_def readersLibrary_def collectionC1_def collectionC1'_def
  collectionC2_def itemI1_def itemI2_def itemI3_def

lemma disjointPlan_planned:
  "librarySyncActions (storageOf snapshot0) alice aliceLibrary None disjointRemote
     = Inr disjointPlan"
  by (simp add: planner_simps disjointRemote_def disjointPlan_def snapshot0_def example_simps)

lemma snapshot0_cursors:
  "libraryReadVersions (storageOf snapshot0) alice aliceLibrary = Inr (versions snapshot0)"
  by (simp add: storageOf_def)

lemma disjointPlan_applied:
  "librarySync (storageOf syncedTo465) alice aliceLibrary disjointPlan = Inr mergedSnapshot"
  by (simp add: merge_simps storageOf_def orObject_def syncedTo465_def disjointPlan_def
        mergedSnapshot_def example_simps)

subsection \<open>C1: fallback of the version cursors\<close>

text \<open>
  C1 says that a cursor whose query answers \<^verbatim>\<open>null\<close>, or answers without a version, keeps
  its stored value in the plan. The planner starts its versions at \<open>0\<close> (lines 58-60)
  and the fallback \<^verbatim>\<open>x.version || syncActions.versions.x\<close> reads that \<open>0\<close>, not the
  stored versions of line 74. With the cursors 4, 6 and 5 stored, a remote without news
  and a remote that answers without versions both give a plan with the cursors 0, 0, 0.
\<close>

theorem stored_cursors_reset:
  "libraryReadVersions (storageOf syncedTo465) alice aliceLibrary
     = Inr \<lparr>v_collections = 4, v_items = 6, v_deleted = 5\<rparr>
   \<and> librarySyncActions (storageOf syncedTo465) alice aliceLibrary None quietRemote = Inr zeroPlan
   \<and> librarySyncActions (storageOf syncedTo465) alice aliceLibrary None versionlessRemote
       = Inr zeroPlan
   \<and> sa_versions zeroPlan = \<lparr>v_collections = 0, v_items = 0, v_deleted = 0\<rparr>"
  by (simp add: planner_simps syncedTo465_def quietRemote_def versionlessRemote_def zeroPlan_def)

subsection \<open>C2: monotonicity of the applied cursors\<close>

text \<open>
  C2 says that the cursors of the applied snapshots never decrease from one successful
  application to the next. Two successful cycles on one library: the first, against a
  remote at version 7, leaves the cursors 7, 7, 7; in the second only the item feed
  answers (version 8), the plan has changes, and the applied snapshot has the cursors
  0, 8, 0: the deleted and the collections cursor went from 7 to 0.
\<close>

theorem cursors_decrease:
  "librarySyncActions (storageOf snapshot0) alice aliceLibrary None firstRemote = Inr firstPlan
   \<and> librarySync (storageOf snapshot0) alice aliceLibrary firstPlan = Inr snapshot1
   \<and> librarySyncActions (storageOf snapshot1) alice aliceLibrary None secondRemote = Inr secondPlan
   \<and> truthyResult (hasLibrarySyncActions secondPlan)
   \<and> librarySync (storageOf snapshot1) alice aliceLibrary secondPlan = Inr snapshot2
   \<and> v_deleted (versions snapshot2) < v_deleted (versions snapshot1)
   \<and> v_collections (versions snapshot2) < v_collections (versions snapshot1)"
  by (simp add: planner_simps merge_simps hasLibrarySyncActions_def firstRemote_def
        secondRemote_def snapshot0_def snapshot1_def snapshot2_def firstPlan_def secondPlan_def
        example_simps)

subsection \<open>C3: deleted keys and updated entries of a plan\<close>

text \<open>
  The planner copies the deletion feed and the fetched entities as they come and does
  not compare them: when the deletion feed and the collection feed both report \<open>C1\<close>,
  the plan has \<open>C1\<close> among the deleted keys and among the updated collections.
\<close>

theorem plan_overlap_counterexample:
  "librarySyncActions (storageOf snapshot0) alice aliceLibrary None overlappingRemote
     = Inr overlappingPlan
   \<and> ''C1'' \<in> set (deleted (sa_collections overlappingPlan))
   \<and> ''C1'' \<in> set (map key (updated (sa_collections overlappingPlan)))"
  by (simp add: planner_simps overlappingRemote_def overlappingPlan_def snapshot0_def
        example_simps)

text \<open>
  C3, amended: in a plan no key is both among the deleted keys and the key of an updated
  entry of the same action set, provided the remote reports no key both in its deletion
  feed and among the collections, or the items without the self-deletion flag, that it
  returns for the change feed of that type, and returns no item key both with and without
  the flag; and no updated item carries the flag.
\<close>

theorem plan_disjoint:
  assumes "librarySyncActions storage user library groupSync zotero = Inr plan"
    and "libraryReadVersions storage user library = Inr cursors"
    and "set (del_collections (remoteDeleted zotero library cursors))
           \<inter> set (map key (remoteCollections zotero library cursors)) = {}"
    and "set (del_items (remoteDeleted zotero library cursors))
           \<inter> set (map key (filter (\<lambda>item. \<not> selfDeleted item)
                                 (remoteItems zotero library cursors))) = {}"
    and "set (map key (filter selfDeleted (remoteItems zotero library cursors)))
           \<inter> set (map key (filter (\<lambda>item. \<not> selfDeleted item)
                                 (remoteItems zotero library cursors))) = {}"
  shows "set (deleted (sa_collections plan)) \<inter> set (map key (updated (sa_collections plan))) = {}
     \<and> set (deleted (sa_items plan)) \<inter> set (map key (updated (sa_items plan))) = {}
     \<and> (\<forall>item \<in> set (updated (sa_items plan)). \<not> selfDeleted item)"
proof -
  note shape = plan_actions [OF assms(1,2)]
  have "set (deleted (sa_collections plan)) \<inter> set (map key (updated (sa_collections plan))) = {}"
    using assms(3) by (simp add: shape)
  moreover have "set (deleted (sa_items plan)) \<inter> set (map key (updated (sa_items plan))) = {}"
    using assms(4,5) unfolding shape by auto
  moreover have "\<forall>item \<in> set (updated (sa_items plan)). \<not> selfDeleted item"
    unfolding shape by simp
  ultimately show ?thesis by blast
qed

text \<open>The amended C3 at a remote that deletes \<open>C1\<close>, \<open>I1\<close> and changes \<open>C2\<close>, \<open>I2\<close>, \<open>I3\<close>.\<close>

theorem plan_disjoint_witness:
  "librarySyncActions (storageOf snapshot0) alice aliceLibrary None disjointRemote = Inr disjointPlan
   \<and> set (del_collections (remoteDeleted disjointRemote aliceLibrary (versions snapshot0)))
       \<inter> set (map key (remoteCollections disjointRemote aliceLibrary (versions snapshot0))) = {}
   \<and> set (del_items (remoteDeleted disjointRemote aliceLibrary (versions snapshot0)))
       \<inter> set (map key (filter (\<lambda>item. \<not> selfDeleted item)
                 (remoteItems disjointRemote aliceLibrary (versions snapshot0)))) = {}
   \<and> set (deleted (sa_collections disjointPlan))
       \<inter> set (map key (updated (sa_collections disjointPlan))) = {}
   \<and> set (deleted (sa_items disjointPlan)) \<inter> set (map key (updated (sa_items disjointPlan))) = {}
   \<and> \<not> selfDeleted itemI2"
proof -
  have c: "set (del_collections (remoteDeleted disjointRemote aliceLibrary (versions snapshot0)))
       \<inter> set (map key (remoteCollections disjointRemote aliceLibrary (versions snapshot0))) = {}"
    by (simp add: remoteDeleted_def remoteCollections_def disjointRemote_def fixedRemote_def
          example_simps)
  have i: "set (del_items (remoteDeleted disjointRemote aliceLibrary (versions snapshot0)))
       \<inter> set (map key (filter (\<lambda>item. \<not> selfDeleted item)
                 (remoteItems disjointRemote aliceLibrary (versions snapshot0)))) = {}"
    by (simp add: remoteDeleted_def remoteItems_def disjointRemote_def fixedRemote_def
          getProp_def example_simps)
  have f: "set (map key (filter selfDeleted
                 (remoteItems disjointRemote aliceLibrary (versions snapshot0))))
       \<inter> set (map key (filter (\<lambda>item. \<not> selfDeleted item)
                 (remoteItems disjointRemote aliceLibrary (versions snapshot0)))) = {}"
    by (simp add: remoteItems_def disjointRemote_def fixedRemote_def getProp_def example_simps)
  have upd: "itemI2 \<in> set (updated (sa_items disjointPlan))"
    by (simp add: disjointPlan_def)
  from plan_disjoint [OF disjointPlan_planned snapshot0_cursors c i f] upd
    disjointPlan_planned c i
  show ?thesis by blast
qed

subsection \<open>C4: the merge is idempotent\<close>

text \<open>
  C4: applying a plan to the snapshot that the same plan produced gives that snapshot
  again. The second application reads the collections and items of the first result
  from the storage; the result is the same \<^verbatim>\<open>LibraryData\<close>, sequences included.
\<close>

theorem merge_idempotent:
  assumes "librarySync storage user library plan = Inr merged"
    and "libraryRead storage' (userWebLibrariesDir storage' user) library =
           Inr \<lparr>lo_collections = collections merged, lo_items = items merged\<rparr>"
  shows "librarySync storage' user library plan = Inr merged"
  using assms
  by (auto simp: librarySync_def Let_def syncObjects_idem split: sum.splits)

text \<open>C4 at the snapshot \<open>syncedTo465\<close> and the plan \<open>disjointPlan\<close>.\<close>

theorem merge_idempotent_witness:
  "librarySync (storageOf syncedTo465) alice aliceLibrary disjointPlan = Inr mergedSnapshot
   \<and> libraryRead (storageOf mergedSnapshot) (userWebLibrariesDir (storageOf mergedSnapshot) alice)
       aliceLibrary
       = Inr \<lparr>lo_collections = collections mergedSnapshot, lo_items = items mergedSnapshot\<rparr>
   \<and> librarySync (storageOf mergedSnapshot) alice aliceLibrary disjointPlan = Inr mergedSnapshot"
proof -
  have reread: "libraryRead (storageOf mergedSnapshot)
                  (userWebLibrariesDir (storageOf mergedSnapshot) alice) aliceLibrary
       = Inr \<lparr>lo_collections = collections mergedSnapshot, lo_items = items mergedSnapshot\<rparr>"
    by (simp add: storageOf_def)
  from merge_idempotent [OF disjointPlan_applied reread] disjointPlan_applied reread
  show ?thesis by blast
qed

subsection \<open>C5: no key twice after the merge\<close>

text \<open>
  The merge removes the stored entries that an update replaces; it does not look for a
  key that occurs twice among the updated entries, or twice in the stored sequence. Two
  updated collections with the key \<open>C1\<close> are both appended, and a stored sequence that
  holds \<open>C1\<close> twice is returned as it is by an empty plan.
\<close>

theorem merge_duplicates_counterexample:
  "librarySync (storageOf snapshot0) alice aliceLibrary duplicatePlan
     = Inr (snapshot0\<lparr>collections := [collectionC1, collectionC1']\<rparr>)
   \<and> librarySync (storageOf duplicatedSnapshot) alice aliceLibrary zeroPlan = Inr duplicatedSnapshot
   \<and> map key [collectionC1, collectionC1'] = [''C1'', ''C1'']
   \<and> \<not> distinct (map key (collections duplicatedSnapshot))"
  by (simp add: merge_simps storageOf_def orObject_def snapshot0_def duplicatePlan_def
        duplicatedSnapshot_def zeroPlan_def example_simps)

text \<open>
  C5, amended: when no key occurs twice in the stored collections, in the stored items,
  in the updated collections and in the updated items of the plan, then after the merge
  no key occurs twice in the resulting collections and none twice in the resulting items.
\<close>

theorem merge_distinct:
  assumes "librarySync storage user library plan = Inr merged"
    and "libraryRead storage (userWebLibrariesDir storage user) library = Inr localObjects"
    and "distinct (map key (lo_collections localObjects))"
    and "distinct (map key (lo_items localObjects))"
    and "distinct (map key (updated (sa_collections plan)))"
    and "distinct (map key (updated (sa_items plan)))"
  shows "distinct (map key (collections merged)) \<and> distinct (map key (items merged))"
  using assms by (auto simp: librarySync_def Let_def syncObjects_distinct)

text \<open>
  The amended C5 at the snapshot \<open>shelfSnapshot\<close> and the plan \<open>replacePlan\<close>: the
  stored keys \<open>C1\<close> and \<open>I2\<close> are also keys of updated entries, and each occurs once in
  the result.
\<close>

theorem merge_distinct_witness:
  "librarySync (storageOf shelfSnapshot) alice aliceLibrary replacePlan = Inr replacedSnapshot
   \<and> map key (collections shelfSnapshot) = [''C1'', ''C2'']
   \<and> map key (items shelfSnapshot) = [''I1'', ''I2'']
   \<and> map key (updated (sa_collections replacePlan)) = [''C1'', ''C3'']
   \<and> map key (updated (sa_items replacePlan)) = [''I2'', ''I4'']
   \<and> map key (collections replacedSnapshot) = [''C2'', ''C1'', ''C3'']
   \<and> map key (items replacedSnapshot) = [''I1'', ''I2'', ''I4'']
   \<and> distinct (map key (collections replacedSnapshot))
   \<and> distinct (map key (items replacedSnapshot))"
proof -
  have applied: "librarySync (storageOf shelfSnapshot) alice aliceLibrary replacePlan
                   = Inr replacedSnapshot"
    by (simp add: merge_simps storageOf_def orObject_def shelfSnapshot_def replacePlan_def
          replacedSnapshot_def collectionC3_def itemI2'_def itemI4_def example_simps)
  have rd: "libraryRead (storageOf shelfSnapshot)
              (userWebLibrariesDir (storageOf shelfSnapshot) alice) aliceLibrary
       = Inr \<lparr>lo_collections = collections shelfSnapshot, lo_items = items shelfSnapshot\<rparr>"
    by (simp add: storageOf_def)
  have k1: "map key (collections shelfSnapshot) = [''C1'', ''C2'']"
    by (simp add: shelfSnapshot_def example_simps)
  have k2: "map key (items shelfSnapshot) = [''I1'', ''I2'']"
    by (simp add: shelfSnapshot_def example_simps)
  have k3: "map key (updated (sa_collections replacePlan)) = [''C1'', ''C3'']"
    by (simp add: replacePlan_def collectionC3_def example_simps)
  have k4: "map key (updated (sa_items replacePlan)) = [''I2'', ''I4'']"
    by (simp add: replacePlan_def itemI2'_def itemI4_def)
  have k5: "map key (collections replacedSnapshot) = [''C2'', ''C1'', ''C3'']"
    by (simp add: replacedSnapshot_def collectionC3_def example_simps)
  have k6: "map key (items replacedSnapshot) = [''I1'', ''I2'', ''I4'']"
    by (simp add: replacedSnapshot_def itemI2'_def itemI4_def example_simps)
  have d1: "distinct (map key (lo_collections
              \<lparr>lo_collections = collections shelfSnapshot, lo_items = items shelfSnapshot\<rparr>))"
    by (simp add: k1)
  have d2: "distinct (map key (lo_items
              \<lparr>lo_collections = collections shelfSnapshot, lo_items = items shelfSnapshot\<rparr>))"
    by (simp add: k2)
  have d3: "distinct (map key (updated (sa_collections replacePlan)))"
    by (simp add: k3)
  have d4: "distinct (map key (updated (sa_items replacePlan)))"
    by (simp add: k4)
  from merge_distinct [OF applied rd d1 d2 d3 d4] applied k1 k2 k3 k4 k5 k6
  show ?thesis by blast
qed

subsection \<open>C6: what the merged sequence is\<close>

text \<open>
  C6: the merged sequence is the input entries whose key is neither a deleted key nor
  the key of an updated entry, in their order, followed by the updated entries in
  theirs; with nothing deleted and nothing updated it is the input sequence.
\<close>

theorem merge_order:
  "syncObjects objects syncActions =
     filter (\<lambda>obj. key obj \<notin> set (deleted syncActions)
                  \<and> key obj \<notin> set (map key (updated syncActions))) objects
       @ updated syncActions
   \<and> syncObjects objects \<lparr>deleted = [], updated = []\<rparr> = objects"
  by (simp add: syncObjects_def Let_def)

subsection \<open>C7: an item that marks itself deleted\<close>

text \<open>
  C7: of the items fetched for the item feed, one whose \<^verbatim>\<open>data["deleted"]\<close> is truthy
  has its key among the deleted item keys of the plan and is not among the updated items;
  one whose flag is falsy or missing is among the updated items.
\<close>

theorem deletion_precedence:
  assumes "librarySyncActions storage user library groupSync zotero = Inr plan"
    and "libraryReadVersions storage user library = Inr cursors"
    and "item \<in> set (remoteItems zotero library cursors)"
  shows "(selfDeleted item \<longrightarrow>
            key item \<in> set (deleted (sa_items plan)) \<and> item \<notin> set (updated (sa_items plan)))
     \<and> (\<not> selfDeleted item \<longrightarrow> item \<in> set (updated (sa_items plan)))"
  using assms(3) unfolding plan_actions [OF assms(1,2)] by auto

text \<open>C7 at the fetched items \<open>I3\<close>, which carries the flag, and \<open>I2\<close>, which does not.\<close>

theorem deletion_precedence_witness:
  "librarySyncActions (storageOf snapshot0) alice aliceLibrary None disjointRemote = Inr disjointPlan
   \<and> itemI3 \<in> set (remoteItems disjointRemote aliceLibrary (versions snapshot0))
   \<and> selfDeleted itemI3
   \<and> key itemI3 \<in> set (deleted (sa_items disjointPlan))
   \<and> itemI3 \<notin> set (updated (sa_items disjointPlan))
   \<and> itemI2 \<in> set (remoteItems disjointRemote aliceLibrary (versions snapshot0))
   \<and> \<not> selfDeleted itemI2
   \<and> itemI2 \<in> set (updated (sa_items disjointPlan))"
proof -
  have i3: "itemI3 \<in> set (remoteItems disjointRemote aliceLibrary (versions snapshot0))"
    by (simp add: remoteItems_def disjointRemote_def fixedRemote_def)
  have i2: "itemI2 \<in> set (remoteItems disjointRemote aliceLibrary (versions snapshot0))"
    by (simp add: remoteItems_def disjointRemote_def fixedRemote_def)
  have flag3: "selfDeleted itemI3"
    by (simp add: itemI3_def getProp_def)
  have flag2: "\<not> selfDeleted itemI2"
    by (simp add: itemI2_def getProp_def)
  from deletion_precedence [OF disjointPlan_planned snapshot0_cursors i3]
    deletion_precedence [OF disjointPlan_planned snapshot0_cursors i2]
    disjointPlan_planned i3 i2 flag3 flag2
  show ?thesis by blast
qed

subsection \<open>C8: group metadata of the merged snapshot\<close>

text \<open>
  \<^verbatim>\<open>librarySync\<close> takes only the collections and the items from what it reads (line
  135) and falls back to \<^verbatim>\<open>library.group\<close> (line 141): group metadata held in the
  stored snapshot is never read. A stored snapshot with the group \<open>readers\<close>, merged
  with a plan without group for a library value without group, gives no group.
\<close>

theorem stored_group_counterexample:
  "group readersSnapshot = Some readers
   \<and> sa_group zeroPlan = None
   \<and> librarySync (storageOf readersSnapshot) alice aliceLibrary zeroPlan
       = Inr (readersSnapshot\<lparr>group := None, versions := sa_versions zeroPlan\<rparr>)
   \<and> group (readersSnapshot\<lparr>group := None, versions := sa_versions zeroPlan\<rparr>) = None"
  by (simp add: merge_simps storageOf_def orObject_def readersSnapshot_def zeroPlan_def
        aliceLibrary_def)

text \<open>
  C8, amended: the group of the merged snapshot is the plan's group when the plan has
  one, and otherwise the group of the \<^verbatim>\<open>Library\<close> value the merge is called with
  (\<^verbatim>\<open>library.group\<close>), whatever the stored snapshot holds. There is no third case.
\<close>

theorem merge_group:
  assumes "librarySync storage user library plan = Inr merged"
  shows "group merged = (case sa_group plan of Some g \<Rightarrow> Some g | None \<Rightarrow> lib_group library)"
  using assms
  by (auto simp: librarySync_def Let_def orObject_def split: sum.splits option.splits)

text \<open>C8 at a plan without group, applied to the library of the group \<open>readers\<close>.\<close>

theorem merge_group_witness:
  "librarySync (storageOf syncedTo465) alice readersLibrary zeroPlan
     = Inr (syncedTo465\<lparr>group := Some readers, versions := sa_versions zeroPlan\<rparr>)
   \<and> sa_group zeroPlan = None \<and> lib_group readersLibrary = Some readers
   \<and> group (syncedTo465\<lparr>group := Some readers, versions := sa_versions zeroPlan\<rparr>) = Some readers"
proof -
  have m: "librarySync (storageOf syncedTo465) alice readersLibrary zeroPlan
     = Inr (syncedTo465\<lparr>group := Some readers, versions := sa_versions zeroPlan\<rparr>)"
    by (simp add: merge_simps storageOf_def orObject_def syncedTo465_def zeroPlan_def
          readersLibrary_def)
  from merge_group [OF m] m show ?thesis
    by (simp add: zeroPlan_def readersLibrary_def)
qed

subsection \<open>C9: \<^verbatim>\<open>hasLibrarySyncActions\<close>\<close>

text \<open>
  For a plan with group metadata \<^verbatim>\<open>sync.group || ...\<close> is the group object, not the
  boolean \<^verbatim>\<open>true\<close>.
\<close>

theorem hasChanges_counterexample:
  "hasLibrarySyncActions groupOnlyPlan = GroupValue readers
   \<and> hasLibrarySyncActions groupOnlyPlan \<noteq> BooleanValue True"
  by (simp add: hasLibrarySyncActions_def groupOnlyPlan_def zeroPlan_def)

text \<open>
  C9, amended: \<^verbatim>\<open>hasLibrarySyncActions\<close> returns \<^verbatim>\<open>false\<close> exactly when the plan has no
  group metadata and its four arrays are empty; in every other case it returns a truthy
  value, the group metadata itself when the plan has it and \<^verbatim>\<open>true\<close> otherwise.
\<close>

theorem hasChanges_value:
  "(hasLibrarySyncActions sync = BooleanValue False) =
     (sa_group sync = None \<and> deleted (sa_collections sync) = [] \<and> updated (sa_collections sync) = []
       \<and> deleted (sa_items sync) = [] \<and> updated (sa_items sync) = [])
   \<and> truthyResult (hasLibrarySyncActions sync) = (hasLibrarySyncActions sync \<noteq> BooleanValue False)
   \<and> hasLibrarySyncActions sync =
       (case sa_group sync of
          Some g \<Rightarrow> GroupValue g
        | None \<Rightarrow> BooleanValue (\<not> (deleted (sa_collections sync) = []
                     \<and> updated (sa_collections sync) = [] \<and> deleted (sa_items sync) = []
                     \<and> updated (sa_items sync) = [])))"
  by (auto simp: hasLibrarySyncActions_def split: option.splits)

subsection \<open>C10: an update outlives a deletion of the same key\<close>

text \<open>
  C10: when a key is among the deleted keys and an updated entry has that key, the merged
  sequence contains the updated entry: the merged sequence ends with the updated entries,
  which are appended after both filters.
\<close>

theorem update_survives_deletion:
  assumes "u \<in> set (updated syncActions)" and "key u \<in> set (deleted syncActions)"
  shows "u \<in> set (syncObjects objects syncActions)
     \<and> drop (length (syncObjects objects syncActions) - length (updated syncActions))
          (syncObjects objects syncActions) = updated syncActions"
  using assms by (simp add: syncObjects_append)

text \<open>C10 at the collection \<open>C1\<close>, deleted and updated by \<open>overlappingPlan\<close>.\<close>

theorem update_survives_deletion_witness:
  "collectionC1 \<in> set (updated (sa_collections overlappingPlan))
   \<and> key collectionC1 \<in> set (deleted (sa_collections overlappingPlan))
   \<and> syncObjects [collectionC1', collectionC2] (sa_collections overlappingPlan)
       = [collectionC2, collectionC1]
   \<and> collectionC1 \<in> set (syncObjects [collectionC1', collectionC2] (sa_collections overlappingPlan))"
proof -
  have u: "collectionC1 \<in> set (updated (sa_collections overlappingPlan))"
    by (simp add: overlappingPlan_def)
  have k: "key collectionC1 \<in> set (deleted (sa_collections overlappingPlan))"
    by (simp add: overlappingPlan_def collectionC1_def)
  have e: "syncObjects [collectionC1', collectionC2] (sa_collections overlappingPlan)
       = [collectionC2, collectionC1]"
    by (simp add: syncObjects_def overlappingPlan_def example_simps)
  from update_survives_deletion [OF u k, of "[collectionC1', collectionC2]"] u k e
  show ?thesis by blast
qed

end
